theory Spec2Isabelle
  imports Complex_Main
begin

section \<open>The document behind \<open>PDFEngine\<close>\<close>

text \<open>
  \<open>pdf_engine.py\<close> is a wrapper around a PDF library: every method of \<open>PDFEngine\<close> is a
  few lines that read or change the library's document object \<open>self.doc\<close>. The document is
  modelled by what those lines read and write: an ordered list of pages, each page with
  the ordered list of its widget annotations and the text runs inserted on it.
\<close>

text \<open>
  The Python exception that reaches the engine's callers: the \<open>ValueError\<close> the library
  raises in \<open>load_page\<close> and in \<open>Widget.update\<close>. The engine has no \<open>raise\<close> of its own. (The
  \<open>AttributeError\<close> that \<open>_iter_widgets\<close> catches never leaves it.)
\<close>

datatype error = ValueError

text \<open>Values a method can hand back where the source has no result type of its own.\<close>

datatype py_value = PyNone | PyBool bool

text \<open>
  A widget annotation as the library's \<open>Widget\<close> object shows it. The engine reads
  \<open>field_name\<close>, \<open>field_value\<close> and \<open>field_type\<close> and writes \<open>field_value\<close>; an unnamed
  widget has the empty string as its name. \<open>appearance\<close> is the value the widget's
  appearance stream shows. \<open>hidden\<close> (the annotation's display flag) and \<open>button_states\<close>
  (the export values of a check box or radio button) are attributes of the library
  object that no line of the engine reads; only the library's \<open>update\<close> looks at them.
\<close>

record widget =
  field_name :: string
  field_value :: string
  field_type :: int
  appearance :: string
  hidden :: bool
  button_states :: "string list"

text \<open>The library's code for the field type of a check box.\<close>

definition PDF_WIDGET_TYPE_CHECKBOX :: int where
  "PDF_WIDGET_TYPE_CHECKBOX = 2"

text \<open>A text run put on a page by \<open>Page.insert_text\<close>: the point, the text, the font size.\<close>

record text_run =
  point :: "real \<times> real"
  run_text :: string
  fontsize :: real

text \<open>
  A page: \<open>widgets\<close> is the list \<open>_iter_widgets\<close> walks for the page, that is what
  \<open>Page.widgets()\<close> yields, and no widget where the source falls back to the empty list
  (a library without that method, a result that is \<open>None\<close>); \<open>inserted\<close> are the text runs
  put on the page.
\<close>

record page =
  widgets :: "widget list"
  inserted :: "text_run list"

text \<open>\<open>PDFEngine.__init__\<close> sets two attributes: the opened document and the current page.\<close>

record pdf_engine =
  doc :: "page list"
  current_page :: int

text \<open>
  The pixel buffer \<open>Page.get_pixmap\<close> returns is represented by what determines it: the
  page that was rendered and the scaling matrix.
\<close>

record pixmap =
  rendered :: page
  matrix :: "real \<times> real"

text \<open>One entry of the list \<open>list_form_fields\<close> returns: the dict with keys name, value, type.\<close>

record form_field =
  entry_name :: string
  entry_value :: string
  entry_type :: int


section \<open>The library calls the engine makes\<close>

text \<open>
  \<open>Document.load_page(page_id)\<close>: a page number that is not below the page count raises
  \<open>ValueError\<close> (page not in document); while the number is negative the page count is
  added to it, so \<open>-1\<close> is the last page. On a document without pages that loop never
  ends for a negative number: the result \<open>None\<close> stands for a call that does not return.
  The page is handed out by reference; the model hands out its position in the list.
\<close>

partial_function (option) add_page_count :: "int \<Rightarrow> int \<Rightarrow> int option" where
  "add_page_count np page_id =
     (if page_id < 0 then add_page_count np (page_id + np) else Some page_id)"

definition load_page :: "page list \<Rightarrow> int \<Rightarrow> (error + nat) option" where
  "load_page d page_id =
     (if \<not> page_id < int (length d) then Some (Inl ValueError)
      else map_option (\<lambda>k. Inr (nat k)) (add_page_count (int (length d)) page_id))"

text \<open>\<open>Page.get_pixmap(matrix=fitz.Matrix(zoom, zoom))\<close>.\<close>

definition get_pixmap :: "page \<Rightarrow> real \<Rightarrow> pixmap" where
  "get_pixmap p zoom = \<lparr>rendered = p, matrix = (zoom, zoom)\<rparr>"

text \<open>\<open>Page.insert_text((x, y), text, fontsize=font_size)\<close> on the page at position \<open>k\<close>.\<close>

definition page_insert_text ::
  "page list \<Rightarrow> nat \<Rightarrow> real \<times> real \<Rightarrow> string \<Rightarrow> real \<Rightarrow> page list" where
  "page_insert_text d k pt txt font_size =
     d[k := (d ! k)\<lparr>inserted := inserted (d ! k) @
                      [\<lparr>point = pt, run_text = txt, fontsize = font_size\<rparr>]\<rparr>]"

text \<open>
  A \<open>Widget\<close> object yielded by \<open>Page.widgets()\<close> is bound to its annotation: the model's
  handle is the pair of the page number and the position in the page's widget list, and
  \<open>widget_at\<close> reads the object's attributes.
\<close>

type_synonym handle = "nat \<times> nat"

definition widget_at :: "page list \<Rightarrow> handle \<Rightarrow> widget" where
  "widget_at d h = widgets (d ! fst h) ! snd h"

text \<open>
  \<open>Widget.update()\<close> is the library's, and what it does depends on the field: it refuses
  a widget without a name, it replaces a check box value it does not know, it writes to
  every widget of the field. The engine's model therefore takes the method as a
  parameter \<open>upd\<close>. Given the document, the handle and the widget object as the engine
  left it (with the new \<open>field_value\<close>), \<open>upd\<close> says whether the call raises and what each
  widget of the document is after it. The call rewrites widgets in place: it adds and
  removes no page and no widget, and it leaves the text on the pages alone.
\<close>

type_synonym update_method =
  "page list \<Rightarrow> handle \<Rightarrow> widget \<Rightarrow> error option \<times> (handle \<Rightarrow> widget)"

definition rewrite_widgets :: "page list \<Rightarrow> (handle \<Rightarrow> widget) \<Rightarrow> page list" where
  "rewrite_widgets d g =
     map (\<lambda>pno. (d ! pno)\<lparr>widgets :=
                    map (\<lambda>i. g (pno, i)) [0 ..< length (widgets (d ! pno))]\<rparr>)
         [0 ..< length d]"


section \<open>The methods of \<open>PDFEngine\<close>\<close>

definition page_count :: "pdf_engine \<Rightarrow> int" where
  "page_count e = int (length (doc e))"

text \<open>\<open>render_page\<close>: the page number goes to \<open>load_page\<close> as it comes.\<close>

definition render_page :: "pdf_engine \<Rightarrow> int \<Rightarrow> real \<Rightarrow> (error + pixmap) option" where
  "render_page e page_number zoom =
     (case load_page (doc e) page_number of
        None \<Rightarrow> None
      | Some (Inl err) \<Rightarrow> Some (Inl err)
      | Some (Inr k) \<Rightarrow> Some (Inr (get_pixmap (doc e ! k) zoom)))"

text \<open>
  \<open>_iter_widgets\<close>: for every page number below the page count, in ascending order, the
  widgets of that page in the order \<open>Page.widgets()\<close> gives them. The page numbers the
  loop loads are in range, where \<open>load_page\<close> hands out the page of that number (lemma
  \<open>load_page_in_range\<close> below), so the model reads the page at \<open>pno\<close> directly.
\<close>

definition iter_widgets :: "page list \<Rightarrow> handle list" where
  "iter_widgets d =
     concat (map (\<lambda>pno. map (\<lambda>i. (pno, i)) [0 ..< length (widgets (d ! pno))])
                 [0 ..< length d])"

text \<open>\<open>list_form_fields\<close>: the loop appends one dict per widget with a truthy name.\<close>

fun list_loop :: "page list \<Rightarrow> handle list \<Rightarrow> form_field list \<Rightarrow> form_field list" where
  "list_loop d [] flds = flds"
| "list_loop d (w # ws) flds =
     (if field_name (widget_at d w) \<noteq> []
      then list_loop d ws (flds @
             [\<lparr>entry_name = field_name (widget_at d w),
               entry_value = field_value (widget_at d w),
               entry_type = field_type (widget_at d w)\<rparr>])
      else list_loop d ws flds)"

definition list_form_fields :: "pdf_engine \<Rightarrow> form_field list" where
  "list_form_fields e = list_loop (doc e) (iter_widgets (doc e)) []"

text \<open>
  \<open>update_form_field\<close>. The loop runs to the first widget whose name equals \<open>name\<close>;
  there the value is assigned to the widget object, \<open>update()\<close> is called on it and the
  method returns. \<open>update_loop\<close> is the loop up to that call: its result is the widget
  object the call is made on, with the value assigned, or \<open>None\<close> when the loop ends
  without a match. \<open>update_form_field\<close> then makes the call: the caller gets \<open>None\<close>, from
  the bare \<open>return\<close> or from the end of the method, unless \<open>update()\<close> raises, and the
  document is what \<open>update()\<close> left.
\<close>

fun update_loop ::
  "page list \<Rightarrow> handle list \<Rightarrow> string \<Rightarrow> string \<Rightarrow> (handle \<times> widget) option" where
  "update_loop d [] name v = None"
| "update_loop d (w # ws) name v =
     (if field_name (widget_at d w) = name
      then Some (w, (widget_at d w)\<lparr>field_value := v\<rparr>)
      else update_loop d ws name v)"

definition update_form_field ::
  "update_method \<Rightarrow> pdf_engine \<Rightarrow> string \<Rightarrow> string \<Rightarrow> (error + py_value) \<times> pdf_engine" where
  "update_form_field upd e name v =
     (case update_loop (doc e) (iter_widgets (doc e)) name v of
        None \<Rightarrow> (Inr PyNone, e)
      | Some (w, obj) \<Rightarrow>
          (case upd (doc e) w obj of
             (None, g) \<Rightarrow> (Inr PyNone, e\<lparr>doc := rewrite_widgets (doc e) g\<rparr>)
           | (Some err, g) \<Rightarrow> (Inl err, e\<lparr>doc := rewrite_widgets (doc e) g\<rparr>)))"

text \<open>
  \<open>insert_text\<close>: the page is loaded, then the text is put on it. A page number that
  \<open>load_page\<close> refuses raises before anything is changed.
\<close>

definition insert_text ::
  "pdf_engine \<Rightarrow> int \<Rightarrow> real \<Rightarrow> real \<Rightarrow> string \<Rightarrow> real \<Rightarrow> (error + pdf_engine) option" where
  "insert_text e page_number x y txt font_size =
     (case load_page (doc e) page_number of
        None \<Rightarrow> None
      | Some (Inl err) \<Rightarrow> Some (Inl err)
      | Some (Inr k) \<Rightarrow>
          Some (Inr (e\<lparr>doc := page_insert_text (doc e) k (x, y) txt font_size\<rparr>)))"


text \<open>
  \<open>save\<close> hands the path and the flag to \<open>Document.save\<close> and does nothing else. It does
  not change the document in memory; what reaches the disk is the library's work and is
  not modelled.
\<close>


section \<open>Document order\<close>

text \<open>
  A handle is valid when it names a widget of the document; \<open>before\<close> is document order:
  page order ascending, then annotation order within the page.
\<close>

definition valid :: "page list \<Rightarrow> handle \<Rightarrow> bool" where
  "valid d h = (fst h < length d \<and> snd h < length (widgets (d ! fst h)))"

definition before :: "handle \<Rightarrow> handle \<Rightarrow> bool" where
  "before h h' = (fst h < fst h' \<or> (fst h = fst h' \<and> snd h < snd h'))"


section \<open>Example documents\<close>

text \<open>
  A form of two pages. Page 0: an unnamed widget, then a hidden text field \<open>a\<close>. Page 1:
  a second text field with the same name \<open>a\<close>, then a check box \<open>agree\<close> with the export
  values \<open>Yes\<close> and \<open>Off\<close>.
\<close>

definition form_engine :: pdf_engine where
  "form_engine =
     \<lparr>doc =
        [\<lparr>widgets =
            [\<lparr>field_name = [], field_value = ''0'', field_type = 7, appearance = ''0'',
              hidden = False, button_states = []\<rparr>,
             \<lparr>field_name = ''a'', field_value = ''1'', field_type = 7, appearance = ''1'',
              hidden = True, button_states = []\<rparr>],
          inserted = []\<rparr>,
         \<lparr>widgets =
            [\<lparr>field_name = ''a'', field_value = ''2'', field_type = 7, appearance = ''2'',
              hidden = False, button_states = []\<rparr>,
             \<lparr>field_name = ''agree'', field_value = ''Yes'',
              field_type = PDF_WIDGET_TYPE_CHECKBOX, appearance = ''Yes'',
              hidden = False, button_states = [''Yes'', ''Off'']\<rparr>],
          inserted = []\<rparr>],
      current_page = 0\<rparr>"

text \<open>A document of one page without any widget.\<close>

definition blank_engine :: pdf_engine where
  "blank_engine = \<lparr>doc = [\<lparr>widgets = [], inserted = []\<rparr>], current_page = 0\<rparr>"

text \<open>
  A form of one page with one text field \<open>a\<close> that has two widgets: both carry the
  field's name and show the field's value.
\<close>

definition shared_engine :: pdf_engine where
  "shared_engine =
     \<lparr>doc =
        [\<lparr>widgets =
            [\<lparr>field_name = ''a'', field_value = ''1'', field_type = 7, appearance = ''1'',
              hidden = False, button_states = []\<rparr>,
             \<lparr>field_name = ''a'', field_value = ''1'', field_type = 7, appearance = ''1'',
              hidden = False, button_states = []\<rparr>],
          inserted = []\<rparr>],
      current_page = 0\<rparr>"


section \<open>What the library's \<open>update\<close> does in the examples\<close>

text \<open>
  The theorems about \<open>update_form_field\<close> hold for every update method. The examples need
  the library's method at particular widgets; each definition here is what
  \<open>Widget.update()\<close> does for the kind of widget it names, and is used for no other.

  A text field whose widget is the only one of its field: a widget without a name is
  refused (\<open>ValueError\<close>, field name missing) and nothing is changed; an empty value is
  not written; any other value is stored and the appearance rebuilt from it.
\<close>

definition text_field_update :: update_method where
  "text_field_update d h w =
     (if field_name w = [] then (Some ValueError, widget_at d)
      else if field_value w = [] then (None, widget_at d)
      else (None, (widget_at d)(h := w\<lparr>appearance := field_value w\<rparr>)))"

text \<open>
  A check box: a value that is one of its states is stored; any other value is
  replaced by \<open>Off\<close>. No value is refused.
\<close>

definition check_box_update :: update_method where
  "check_box_update d h w =
     (if field_name w = [] then (Some ValueError, widget_at d)
      else (let s = (if field_value w \<in> set (button_states w) then field_value w else ''Off'')
            in (None, (widget_at d)(h := w\<lparr>field_value := s, appearance := s\<rparr>))))"

text \<open>
  A text field with several widgets: the value belongs to the field, so every widget
  that carries the field's name shows the new value.
\<close>

definition shared_field_update :: update_method where
  "shared_field_update d h w =
     (if field_name w = [] then (Some ValueError, widget_at d)
      else if field_value w = [] then (None, widget_at d)
      else (None, \<lambda>k. if field_name (widget_at d k) = field_name w
                       then (widget_at d k)\<lparr>field_value := field_value w,
                                             appearance := field_value w\<rparr>
                       else widget_at d k))"


section \<open>Facts about the library calls and the loops\<close>

subsection \<open>\<open>load_page\<close>\<close>

text \<open>
  A page number from \<open>0\<close> up to the page count is loaded as it is, which is how
  \<open>_iter_widgets\<close> calls \<open>load_page\<close>; the page count itself is refused; a negative number
  counts from the end, and on a document without pages it is added to forever.
\<close>

lemma add_page_count_nonneg: "0 \<le> n \<Longrightarrow> add_page_count np n = Some n"
  by (subst add_page_count.simps) simp

lemma add_page_count_minus_one: "0 < np \<Longrightarrow> add_page_count np (- 1) = Some (np - 1)"
  by (subst add_page_count.simps) (simp add: add_page_count_nonneg)

lemma add_page_count_negative:
  "0 < np \<Longrightarrow> n < 0 \<Longrightarrow> add_page_count np n = Some (n mod np)"
proof (induction "nat (- n)" arbitrary: n rule: less_induct)
  case less
  show ?case
  proof (cases "n + np < 0")
    case True
    with less.prems have "add_page_count np (n + np) = Some ((n + np) mod np)"
      by (intro less.hyps) auto
    with less.prems show ?thesis
      by (subst add_page_count.simps) simp
  next
    case False
    with less.prems have "(n + np) mod np = n + np"
      by (intro mod_pos_pos_trivial) auto
    then have "n mod np = n + np"
      by simp
    with False less.prems show ?thesis
      by (subst add_page_count.simps) (simp add: add_page_count_nonneg)
  qed
qed

lemma add_page_count_Some:
  assumes "add_page_count np n = Some y"
  shows "np = 0 \<longrightarrow> 0 \<le> n"
  by (rule add_page_count.raw_induct
            [where P = "\<lambda>np n y. np = 0 \<longrightarrow> 0 \<le> n", OF _ assms])
     (fastforce split: if_splits)

lemma add_page_count_never_returns: "n < 0 \<Longrightarrow> add_page_count 0 n = None"
  using add_page_count_Some [of 0 n] by (cases "add_page_count 0 n") auto

lemma load_page_in_range:
  "0 \<le> n \<Longrightarrow> n < int (length d) \<Longrightarrow> load_page d n = Some (Inr (nat n))"
  by (simp add: load_page_def add_page_count_nonneg)

lemma load_page_page_count: "load_page d (int (length d)) = Some (Inl ValueError)"
  by (simp add: load_page_def)

lemma load_page_minus_one: "d \<noteq> [] \<Longrightarrow> load_page d (- 1) = Some (Inr (length d - 1))"
  by (cases d) (simp_all add: load_page_def add_page_count_minus_one)

lemma load_page_negative:
  "d \<noteq> [] \<Longrightarrow> n < 0 \<Longrightarrow> load_page d n = Some (Inr (nat (n mod int (length d))))"
  by (simp add: load_page_def add_page_count_negative)

lemma load_page_never_returns: "n < 0 \<Longrightarrow> load_page [] n = None"
  by (simp add: load_page_def add_page_count_never_returns)


subsection \<open>The order in which \<open>_iter_widgets\<close> yields\<close>

text \<open>
  \<open>_iter_widgets\<close> yields every widget of the document once, in document order, and read
  through their handles the widgets are the pages' widget lists one after the other.
\<close>

lemma set_iter_widgets: "h \<in> set (iter_widgets d) \<longleftrightarrow> valid d h"
  by (cases h) (force simp: iter_widgets_def valid_def)

lemma not_before_sym: "before h h' \<Longrightarrow> \<not> before h' h"
  by (auto simp: before_def)

lemma before_irrefl: "\<not> before h h"
  by (auto simp: before_def)

lemma sorted_wrt_before_concat:
  "sorted_wrt (<) ks \<Longrightarrow>
   sorted_wrt before (concat (map (\<lambda>pno. map (\<lambda>i. (pno, i)) [0 ..< n pno]) ks))"
proof (induction ks)
  case Nil
  then show ?case by simp
next
  case (Cons k ks)
  have here: "sorted_wrt before (map (\<lambda>i. (k, i)) [0 ..< n k])"
    by (simp add: sorted_wrt_map before_def)
  have cross: "\<forall>x \<in> set (map (\<lambda>i. (k, i)) [0 ..< n k]).
               \<forall>y \<in> set (concat (map (\<lambda>pno. map (\<lambda>i. (pno, i)) [0 ..< n pno]) ks)).
                 before x y"
    using Cons.prems by (auto simp: before_def)
  have rest: "sorted_wrt before (concat (map (\<lambda>pno. map (\<lambda>i. (pno, i)) [0 ..< n pno]) ks))"
    using Cons by simp
  show ?case
    using here cross rest by (simp add: sorted_wrt_append)
qed

lemma sorted_iter_widgets: "sorted_wrt before (iter_widgets d)"
  unfolding iter_widgets_def by (rule sorted_wrt_before_concat) simp

lemma find_sorted_first:
  "sorted_wrt R xs \<Longrightarrow> List.find P xs = Some h \<Longrightarrow> h' \<in> set xs \<Longrightarrow> P h' \<Longrightarrow>
   h' = h \<or> R h h'"
  by (induction xs) (auto split: if_splits)

lemma map_widget_at_iter: "map (widget_at d) (iter_widgets d) = concat (map widgets d)"
proof -
  have "map (widget_at d) (iter_widgets d) =
        concat (map (\<lambda>pno. map (\<lambda>i. widgets (d ! pno) ! i) [0 ..< length (widgets (d ! pno))])
                 [0 ..< length d])"
    by (simp add: iter_widgets_def map_concat widget_at_def comp_def)
  also have "\<dots> = concat (map (\<lambda>pno. widgets (d ! pno)) [0 ..< length d])"
    by (simp add: map_nth)
  also have "\<dots> = concat (map widgets (map (\<lambda>pno. d ! pno) [0 ..< length d]))"
    by (simp add: comp_def)
  also have "\<dots> = concat (map widgets d)"
    by (simp only: map_nth)
  finally show ?thesis .
qed

lemma set_all_widgets: "set (concat (map widgets d)) = widget_at d ` {h. valid d h}"
proof -
  have "set (concat (map widgets d)) = set (map (widget_at d) (iter_widgets d))"
    by (simp only: map_widget_at_iter)
  also have "\<dots> = widget_at d ` {h. valid d h}"
    by (auto simp: set_iter_widgets)
  finally show ?thesis .
qed

lemma ex_widget_iff:
  "(\<exists>w \<in> set (concat (map widgets d)). P w) \<longleftrightarrow> (\<exists>h. valid d h \<and> P (widget_at d h))"
  by (simp only: set_all_widgets) auto

lemma all_widget_iff:
  "(\<forall>w \<in> set (concat (map widgets d)). P w) \<longleftrightarrow> (\<forall>h. valid d h \<longrightarrow> P (widget_at d h))"
  by (simp only: set_all_widgets) auto

lemma iter_widgets_form_engine:
  "iter_widgets (doc form_engine) = [(0, 0), (0, 1), (1, 0), (1, 1)]"
  by (simp add: iter_widgets_def form_engine_def upt_rec)

lemma iter_widgets_shared_engine:
  "iter_widgets (doc shared_engine) = [(0, 0), (0, 1)]"
  by (simp add: iter_widgets_def shared_engine_def upt_rec)


subsection \<open>Rewriting widgets in place, and \<open>Page.insert_text\<close>\<close>

text \<open>
  A rewrite keeps the pages, the number of widgets on each and the text on them; the
  widget at a handle is afterwards what the rewrite gives for the handle.
\<close>

lemma length_rewrite_widgets: "length (rewrite_widgets d g) = length d"
  by (simp add: rewrite_widgets_def)

lemma length_widgets_rewrite_widgets:
  "p < length d \<Longrightarrow> length (widgets (rewrite_widgets d g ! p)) = length (widgets (d ! p))"
  by (simp add: rewrite_widgets_def)

lemma inserted_rewrite_widgets:
  "p < length d \<Longrightarrow> inserted (rewrite_widgets d g ! p) = inserted (d ! p)"
  by (simp add: rewrite_widgets_def)

lemma valid_rewrite_widgets: "valid (rewrite_widgets d g) h = valid d h"
  by (cases "fst h < length d")
     (simp_all add: valid_def length_rewrite_widgets length_widgets_rewrite_widgets)


lemma widget_at_rewrite_widgets:
  "valid d h \<Longrightarrow> widget_at (rewrite_widgets d g) h = g h"
  by (cases h) (simp add: valid_def widget_at_def rewrite_widgets_def)


lemma length_page_insert_text: "length (page_insert_text d k pt txt font_size) = length d"
  by (simp add: page_insert_text_def)


subsection \<open>The loops of \<open>update_form_field\<close> and \<open>list_form_fields\<close>\<close>

text \<open>
  The update loop stops at the first handle whose widget has the name; the listing loop
  is a filter followed by a map.
\<close>

lemma update_loop_find:
  "update_loop d hs name v =
     map_option (\<lambda>h. (h, (widget_at d h)\<lparr>field_value := v\<rparr>))
       (List.find (\<lambda>h. field_name (widget_at d h) = name) hs)"
  by (induction hs) auto

lemma first_match_props:
  assumes "List.find (\<lambda>h. field_name (widget_at d h) = name) (iter_widgets d) = Some h"
  shows "valid d h"
    and "field_name (widget_at d h) = name"
    and "\<And>h'. valid d h' \<Longrightarrow> before h' h \<Longrightarrow> field_name (widget_at d h') \<noteq> name"
proof -
  from assms have "h \<in> set (iter_widgets d)" and nm: "field_name (widget_at d h) = name"
    by (auto simp: find_Some_iff)
  then show "valid d h" and "field_name (widget_at d h) = name"
    by (simp_all add: set_iter_widgets)
  fix h' assume v: "valid d h'" and b: "before h' h"
  show "field_name (widget_at d h') \<noteq> name"
  proof
    assume "field_name (widget_at d h') = name"
    with find_sorted_first [OF sorted_iter_widgets assms, of h'] v
    have "h' = h \<or> before h h'"
      by (simp add: set_iter_widgets)
    with b show False
      using before_irrefl not_before_sym by blast
  qed
qed

lemma first_match_exists:
  assumes "\<exists>w \<in> set (concat (map widgets d)). field_name w = name"
  shows "\<exists>h. List.find (\<lambda>h. field_name (widget_at d h) = name) (iter_widgets d) = Some h"
proof -
  from assms obtain h0 where "valid d h0" "field_name (widget_at d h0) = name"
    unfolding ex_widget_iff by blast
  then have "\<exists>x. x \<in> set (iter_widgets d) \<and> field_name (widget_at d x) = name"
    unfolding set_iter_widgets by blast
  then have "List.find (\<lambda>h. field_name (widget_at d h) = name) (iter_widgets d) \<noteq> None"
    unfolding find_None_iff by blast
  then show ?thesis by auto
qed

lemma first_match_none:
  assumes "\<forall>w \<in> set (concat (map widgets d)). field_name w \<noteq> name"
  shows "List.find (\<lambda>h. field_name (widget_at d h) = name) (iter_widgets d) = None"
  using assms unfolding all_widget_iff by (auto simp: find_None_iff set_iter_widgets)

lemma first_match_unique:
  assumes "valid d h" and "field_name (widget_at d h) = name"
    and "\<forall>h'. valid d h' \<and> before h' h \<longrightarrow> field_name (widget_at d h') \<noteq> name"
  shows "List.find (\<lambda>h. field_name (widget_at d h) = name) (iter_widgets d) = Some h"
proof -
  from assms(1,2) have "\<exists>w \<in> set (concat (map widgets d)). field_name w = name"
    unfolding ex_widget_iff by blast
  from first_match_exists [OF this] obtain k
    where f: "List.find (\<lambda>h. field_name (widget_at d h) = name) (iter_widgets d) = Some k" ..
  note fm = first_match_props [OF f]
  have "\<not> before k h" using assms(3) fm(1,2) by blast
  moreover have "\<not> before h k" using fm(3) assms(1,2) by blast
  ultimately have "k = h"
    by (cases k; cases h) (auto simp: before_def)
  with f show ?thesis by simp
qed

lemma update_form_field_no_call:
  "update_loop (doc e) (iter_widgets (doc e)) name v = None \<Longrightarrow>
   update_form_field upd e name v = (Inr PyNone, e)"
  by (simp add: update_form_field_def)

lemma update_form_field_call:
  "update_loop (doc e) (iter_widgets (doc e)) name v = Some (h, w) \<Longrightarrow>
   update_form_field upd e name v =
     (case fst (upd (doc e) h w) of None \<Rightarrow> Inr PyNone | Some err \<Rightarrow> Inl err,
      e\<lparr>doc := rewrite_widgets (doc e) (snd (upd (doc e) h w))\<rparr>)"
  by (cases "upd (doc e) h w") (simp add: update_form_field_def split: option.split)

lemma length_doc_update_form_field:
  "length (doc (snd (update_form_field upd e name v))) = length (doc e)"
  by (cases "update_loop (doc e) (iter_widgets (doc e)) name v")
     (auto simp: update_form_field_no_call update_form_field_call length_rewrite_widgets)

lemma list_loop_filter:
  "list_loop d hs flds =
     flds @ map (\<lambda>w. \<lparr>entry_name = field_name w, entry_value = field_value w,
                       entry_type = field_type w\<rparr>)
                (filter (\<lambda>w. field_name w \<noteq> []) (map (widget_at d) hs))"
  by (induction hs arbitrary: flds) auto

lemma list_form_fields_eq:
  "list_form_fields e =
     map (\<lambda>w. \<lparr>entry_name = field_name w, entry_value = field_value w,
                 entry_type = field_type w\<rparr>)
         (filter (\<lambda>w. field_name w \<noteq> []) (map (widget_at (doc e)) (iter_widgets (doc e))))"
  by (simp add: list_form_fields_def list_loop_filter)



lemma update_loop_first_match:
  assumes "valid d h" and "field_name (widget_at d h) = name"
    and "\<forall>h'. valid d h' \<and> before h' h \<longrightarrow> field_name (widget_at d h') \<noteq> name"
  shows "update_loop d (iter_widgets d) name v = Some (h, (widget_at d h)\<lparr>field_value := v\<rparr>)"
  by (simp add: update_loop_find first_match_unique [OF assms])

lemma update_loop_Some:
  assumes "update_loop d (iter_widgets d) name v = Some (h, w)"
  shows "List.find (\<lambda>h. field_name (widget_at d h) = name) (iter_widgets d) = Some h"
    and "w = (widget_at d h)\<lparr>field_value := v\<rparr>"
  using assms by (auto simp: update_loop_find)

lemma widget_after_call:
  assumes "update_loop (doc e) (iter_widgets (doc e)) name v = Some (h, w)"
    and "valid (doc e) k"
  shows "widget_at (doc (snd (update_form_field upd e name v))) k = snd (upd (doc e) h w) k"
  using update_form_field_call [OF assms(1), of upd] assms(2)
  by (simp add: widget_at_rewrite_widgets)



subsection \<open>The example documents\<close>

text \<open>Where the update loop stops on the examples, and which handles they have.\<close>

lemma update_loop_form_a:
  "update_loop (doc form_engine) (iter_widgets (doc form_engine)) ''a'' ''x'' =
     Some ((0, 1),
           \<lparr>field_name = ''a'', field_value = ''x'', field_type = 7, appearance = ''1'',
            hidden = True, button_states = []\<rparr>)"
  by (simp add: iter_widgets_form_engine) (simp add: form_engine_def widget_at_def)

lemma update_loop_form_agree:
  "update_loop (doc form_engine) (iter_widgets (doc form_engine)) ''agree'' ''banana'' =
     Some ((1, 1),
           \<lparr>field_name = ''agree'', field_value = ''banana'',
            field_type = PDF_WIDGET_TYPE_CHECKBOX, appearance = ''Yes'',
            hidden = False, button_states = [''Yes'', ''Off'']\<rparr>)"
  by (simp add: iter_widgets_form_engine) (simp add: form_engine_def widget_at_def)

lemma update_loop_form_unnamed:
  "update_loop (doc form_engine) (iter_widgets (doc form_engine)) [] ''x'' =
     Some ((0, 0),
           \<lparr>field_name = [], field_value = ''x'', field_type = 7, appearance = ''0'',
            hidden = False, button_states = []\<rparr>)"
  by (simp add: iter_widgets_form_engine) (simp add: form_engine_def widget_at_def)

lemma update_loop_form_zzz:
  "update_loop (doc form_engine) (iter_widgets (doc form_engine)) ''zzz'' ''x'' = None"
  by (simp add: iter_widgets_form_engine) (simp add: form_engine_def widget_at_def)

lemma update_loop_shared_a:
  "update_loop (doc shared_engine) (iter_widgets (doc shared_engine)) ''a'' ''x'' =
     Some ((0, 0),
           \<lparr>field_name = ''a'', field_value = ''x'', field_type = 7, appearance = ''1'',
            hidden = False, button_states = []\<rparr>)"
  by (simp add: iter_widgets_shared_engine) (simp add: shared_engine_def widget_at_def)

lemma valid_form_engine:
  "valid (doc form_engine) h \<longleftrightarrow> h \<in> {(0, 0), (0, 1), (1, 0), (1, 1)}"
  using set_iter_widgets [of h "doc form_engine"] by (simp add: iter_widgets_form_engine)

lemma valid_shared_engine: "valid (doc shared_engine) h \<longleftrightarrow> h \<in> {(0, 0), (0, 1)}"
  using set_iter_widgets [of h "doc shared_engine"] by (simp add: iter_widgets_shared_engine)


section \<open>The claims\<close>

text \<open>
  C1, as the code has it. For a non-empty name that some widget of the document has,
  \<open>update_form_field\<close> selects exactly one widget: the first one in document order (page
  order ascending, then annotation order within the page) whose field name equals the
  name, a named widget. It assigns the value to that widget object and calls its
  \<open>update()\<close>, the library call that stores the value and regenerates the appearance.
  The result of the method and the document after it are those of that one call. The
  lookup compares names and nothing else: a hidden widget is selected like a visible
  one.
\<close>

theorem update_form_field_first_match:
  assumes "name \<noteq> []"
    and "\<exists>w \<in> set (concat (map widgets (doc e))). field_name w = name"
  shows "\<exists>h. valid (doc e) h \<and> field_name (widget_at (doc e) h) = name \<and>
             field_name (widget_at (doc e) h) \<noteq> [] \<and>
             (\<forall>h'. valid (doc e) h' \<and> before h' h \<longrightarrow>
                     field_name (widget_at (doc e) h') \<noteq> name) \<and>
             update_loop (doc e) (iter_widgets (doc e)) name v =
               Some (h, (widget_at (doc e) h)\<lparr>field_value := v\<rparr>) \<and>
             update_form_field upd e name v =
               (case fst (upd (doc e) h ((widget_at (doc e) h)\<lparr>field_value := v\<rparr>)) of
                  None \<Rightarrow> Inr PyNone
                | Some err \<Rightarrow> Inl err,
                e\<lparr>doc := rewrite_widgets (doc e)
                   (snd (upd (doc e) h ((widget_at (doc e) h)\<lparr>field_value := v\<rparr>)))\<rparr>)"
proof -
  from first_match_exists [OF assms(2)] obtain h
    where f: "List.find (\<lambda>h. field_name (widget_at (doc e) h) = name)
                (iter_widgets (doc e)) = Some h" ..
  have l: "update_loop (doc e) (iter_widgets (doc e)) name v =
             Some (h, (widget_at (doc e) h)\<lparr>field_value := v\<rparr>)"
    by (simp add: update_loop_find f)
  from first_match_props [OF f] assms(1)
  have "field_name (widget_at (doc e) h) \<noteq> []" by simp
  with first_match_props [OF f] l update_form_field_call [OF l, of upd]
  show ?thesis by blast
qed

theorem update_form_field_first_match_witness:
  "\<forall>upd. update_form_field upd form_engine ''a'' ''x'' =
     (case fst (upd (doc form_engine) (0, 1)
                  ((widget_at (doc form_engine) (0, 1))\<lparr>field_value := ''x''\<rparr>)) of
        None \<Rightarrow> Inr PyNone
      | Some err \<Rightarrow> Inl err,
      form_engine\<lparr>doc := rewrite_widgets (doc form_engine)
         (snd (upd (doc form_engine) (0, 1)
                 ((widget_at (doc form_engine) (0, 1))\<lparr>field_value := ''x''\<rparr>)))\<rparr>)"
proof
  fix upd :: update_method
  have ex: "\<exists>w \<in> set (concat (map widgets (doc form_engine))). field_name w = ''a''"
    by (simp add: form_engine_def)
  have ne: "''a'' \<noteq> []" by simp
  from update_form_field_first_match [OF ne ex, of "''x''" upd] obtain h where
    l: "update_loop (doc form_engine) (iter_widgets (doc form_engine)) ''a'' ''x'' =
          Some (h, (widget_at (doc form_engine) h)\<lparr>field_value := ''x''\<rparr>)" and
    u: "update_form_field upd form_engine ''a'' ''x'' =
          (case fst (upd (doc form_engine) h
                       ((widget_at (doc form_engine) h)\<lparr>field_value := ''x''\<rparr>)) of
             None \<Rightarrow> Inr PyNone
           | Some err \<Rightarrow> Inl err,
           form_engine\<lparr>doc := rewrite_widgets (doc form_engine)
              (snd (upd (doc form_engine) h
                      ((widget_at (doc form_engine) h)\<lparr>field_value := ''x''\<rparr>)))\<rparr>)"
    by blast
  from l have "h = (0, 1)" by (simp add: update_loop_form_a)
  with u show "update_form_field upd form_engine ''a'' ''x'' =
     (case fst (upd (doc form_engine) (0, 1)
                  ((widget_at (doc form_engine) (0, 1))\<lparr>field_value := ''x''\<rparr>)) of
        None \<Rightarrow> Inr PyNone
      | Some err \<Rightarrow> Inl err,
      form_engine\<lparr>doc := rewrite_widgets (doc form_engine)
         (snd (upd (doc form_engine) (0, 1)
                 ((widget_at (doc form_engine) (0, 1))\<lparr>field_value := ''x''\<rparr>)))\<rparr>)"
    by simp
qed

text \<open>
  C1 as stated fails: the name \<open>a\<close> is carried by a hidden widget on page 0 and by a
  visible one on page 1, and the lookup selects the hidden one.
\<close>

theorem lookup_hidden_counterexample:
  "hidden (widget_at (doc form_engine) (0, 1)) \<and>
   field_name (widget_at (doc form_engine) (1, 0)) = ''a'' \<and>
   \<not> hidden (widget_at (doc form_engine) (1, 0)) \<and>
   update_loop (doc form_engine) (iter_widgets (doc form_engine)) ''a'' ''x'' =
     Some ((0, 1),
           \<lparr>field_name = ''a'', field_value = ''x'', field_type = 7, appearance = ''1'',
            hidden = True, button_states = []\<rparr>)"
  by (simp add: iter_widgets_form_engine) (simp add: form_engine_def widget_at_def)




text \<open>
  C3, as the code has it. \<open>update_form_field\<close> has no return statement with a value:
  every call that returns hands back \<open>None\<close>, whether a widget was found and updated or
  not. A call that fails fails with the error its \<open>update()\<close> call raised.
\<close>

theorem update_form_field_returns_none:
  "(\<forall>r. fst (update_form_field upd e name v) = Inr r \<longrightarrow> r = PyNone) \<and>
   (\<forall>err. fst (update_form_field upd e name v) = Inl err \<longrightarrow>
      (\<exists>h w. update_loop (doc e) (iter_widgets (doc e)) name v = Some (h, w) \<and>
             fst (upd (doc e) h w) = Some err))"
proof (cases "update_loop (doc e) (iter_widgets (doc e)) name v")
  case None
  then show ?thesis by (simp add: update_form_field_no_call)
next
  case (Some c)
  obtain h w where c: "c = (h, w)" by (cases c)
  from Some c have "update_loop (doc e) (iter_widgets (doc e)) name v = Some (h, w)"
    by simp
  from update_form_field_call [OF this, of upd] Some c show ?thesis
    by (auto split: option.splits)
qed

theorem update_form_field_returns_none_witness:
  "fst (update_form_field text_field_update form_engine ''a'' ''x'') = Inr PyNone \<and>
   fst (update_form_field text_field_update form_engine ''zzz'' ''x'') = Inr PyNone \<and>
   fst (update_form_field text_field_update form_engine [] ''x'') = Inl ValueError \<and>
   fst (text_field_update (doc form_engine) (0, 0)
          ((widget_at (doc form_engine) (0, 0))\<lparr>field_value := ''x''\<rparr>)) = Some ValueError"
proof -
  have a: "\<exists>r. fst (update_form_field text_field_update form_engine ''a'' ''x'') = Inr r"
    by (simp add: update_form_field_def update_loop_form_a text_field_update_def)
  have z: "\<exists>r. fst (update_form_field text_field_update form_engine ''zzz'' ''x'') = Inr r"
    by (simp add: update_form_field_def update_loop_form_zzz)
  have u: "fst (update_form_field text_field_update form_engine [] ''x'') = Inl ValueError"
    by (simp add: update_form_field_def update_loop_form_unnamed text_field_update_def)
  have c: "fst (text_field_update (doc form_engine) (0, 0)
          ((widget_at (doc form_engine) (0, 0))\<lparr>field_value := ''x''\<rparr>)) = Some ValueError"
    by (simp add: text_field_update_def form_engine_def widget_at_def)
  from a update_form_field_returns_none [of text_field_update form_engine "''a''" "''x''"]
  have 1: "fst (update_form_field text_field_update form_engine ''a'' ''x'') = Inr PyNone"
    by auto
  from z update_form_field_returns_none [of text_field_update form_engine "''zzz''" "''x''"]
  have 2: "fst (update_form_field text_field_update form_engine ''zzz'' ''x'') = Inr PyNone"
    by auto
  from 1 2 u c show ?thesis by blast
qed

text \<open>
  C3 as stated fails: a call that finds a widget and changes its value and a call that
  finds none and changes nothing hand back the same value.
\<close>

theorem success_flag_counterexample:
  "fst (update_form_field text_field_update form_engine ''a'' ''x'') = Inr PyNone \<and>
   fst (update_form_field text_field_update form_engine ''zzz'' ''x'') = Inr PyNone \<and>
   field_value (widget_at (doc form_engine) (0, 1)) = ''1'' \<and>
   field_value
     (widget_at (doc (snd (update_form_field text_field_update form_engine ''a'' ''x''))) (0, 1))
     = ''x'' \<and>
   snd (update_form_field text_field_update form_engine ''zzz'' ''x'') = form_engine"
proof -
  have v: "valid (doc form_engine) (0, 1)" by (simp add: valid_form_engine)
  have 1: "fst (update_form_field text_field_update form_engine ''a'' ''x'') = Inr PyNone"
    by (simp add: update_form_field_def update_loop_form_a text_field_update_def)
  have 2: "update_form_field text_field_update form_engine ''zzz'' ''x'' = (Inr PyNone, form_engine)"
    by (simp add: update_form_field_def update_loop_form_zzz)
  have 3: "field_value (widget_at (doc form_engine) (0, 1)) = ''1''"
    by (simp add: form_engine_def widget_at_def)
  have 4: "field_value
     (widget_at (doc (snd (update_form_field text_field_update form_engine ''a'' ''x''))) (0, 1))
     = ''x''"
    by (subst widget_after_call [OF update_loop_form_a v]) (simp add: text_field_update_def)
  from 1 2 3 4 show ?thesis by simp
qed

text \<open>
  C4, as the code has it. \<open>render_page\<close> has no bounds check of its own. With the page
  count as the page number it fails with the \<open>ValueError\<close> of \<open>load_page\<close>; with \<open>-1\<close>, on a
  document that has a page, it does not fail: it renders the last page.
\<close>

theorem render_page_bounds:
  "render_page e (page_count e) zoom = Some (Inl ValueError) \<and>
   (doc e \<noteq> [] \<longrightarrow>
      render_page e (- 1) zoom = Some (Inr (get_pixmap (last (doc e)) zoom)))"
  by (simp add: render_page_def page_count_def load_page_page_count load_page_minus_one
        last_conv_nth)

theorem render_page_bounds_witness:
  "doc form_engine \<noteq> [] \<and>
   render_page form_engine 2 1.5 = Some (Inl ValueError) \<and>
   render_page form_engine (- 1) 1.5 =
     Some (Inr \<lparr>rendered = doc form_engine ! 1, matrix = (1.5, 1.5)\<rparr>)"
proof -
  have ne: "doc form_engine \<noteq> []" and pc: "page_count form_engine = 2"
    and l: "last (doc form_engine) = doc form_engine ! 1"
    by (simp_all add: form_engine_def page_count_def)
  from render_page_bounds [of form_engine "1.5"] ne pc l show ?thesis
    by (simp add: get_pixmap_def)
qed

text \<open>
  C4 as stated fails: on the two-page form \<open>render_page\<close> with \<open>-1\<close> returns the pixmap of
  the second page.
\<close>

theorem render_page_minus_one_counterexample:
  "render_page form_engine (- 1) 2 =
     Some (Inr \<lparr>rendered = doc form_engine ! 1, matrix = (2, 2)\<rparr>)"
proof -
  have "load_page (doc form_engine) (- 1) = Some (Inr 1)"
    by (simp add: load_page_minus_one form_engine_def)
  then show ?thesis by (simp add: render_page_def get_pixmap_def)
qed

text \<open>
  C5, as the code has it. \<open>update_form_field\<close> checks no value against the field's type or
  export values: whatever the first widget with the name is (a check box and a radio
  button included) and whatever the value, the value is assigned to the widget object
  as it is and \<open>update()\<close> is called. The method fails only when that call raises, with
  the call's error, and the widget is afterwards what the call stored.
\<close>

theorem update_form_field_no_validation:
  assumes "valid (doc e) h" and "field_name (widget_at (doc e) h) = name"
    and "\<forall>h'. valid (doc e) h' \<and> before h' h \<longrightarrow> field_name (widget_at (doc e) h') \<noteq> name"
  shows "update_loop (doc e) (iter_widgets (doc e)) name v =
           Some (h, (widget_at (doc e) h)\<lparr>field_value := v\<rparr>) \<and>
         fst (update_form_field upd e name v) =
           (case fst (upd (doc e) h ((widget_at (doc e) h)\<lparr>field_value := v\<rparr>)) of
              None \<Rightarrow> Inr PyNone
            | Some err \<Rightarrow> Inl err) \<and>
         widget_at (doc (snd (update_form_field upd e name v))) h =
           snd (upd (doc e) h ((widget_at (doc e) h)\<lparr>field_value := v\<rparr>)) h"
proof -
  note l = update_loop_first_match [OF assms, of v]
  from update_form_field_call [OF l, of upd] l assms(1) show ?thesis
    by (simp add: widget_at_rewrite_widgets)
qed

theorem update_form_field_no_validation_witness:
  "field_type (widget_at (doc form_engine) (1, 1)) = PDF_WIDGET_TYPE_CHECKBOX \<and>
   ''banana'' \<notin> set (button_states (widget_at (doc form_engine) (1, 1))) \<and>
   update_loop (doc form_engine) (iter_widgets (doc form_engine)) ''agree'' ''banana'' =
     Some ((1, 1), (widget_at (doc form_engine) (1, 1))\<lparr>field_value := ''banana''\<rparr>) \<and>
   (\<forall>upd. fst (update_form_field upd form_engine ''agree'' ''banana'') =
      (case fst (upd (doc form_engine) (1, 1)
                   ((widget_at (doc form_engine) (1, 1))\<lparr>field_value := ''banana''\<rparr>)) of
         None \<Rightarrow> Inr PyNone
       | Some err \<Rightarrow> Inl err))"
proof -
  have v: "valid (doc form_engine) (1, 1)"
    and n: "field_name (widget_at (doc form_engine) (1, 1)) = ''agree''"
    and t: "field_type (widget_at (doc form_engine) (1, 1)) = PDF_WIDGET_TYPE_CHECKBOX"
    and s: "''banana'' \<notin> set (button_states (widget_at (doc form_engine) (1, 1)))"
    by (simp_all add: form_engine_def valid_def widget_at_def)
  have b: "\<forall>h'. valid (doc form_engine) h' \<and> before h' (1, 1) \<longrightarrow>
             field_name (widget_at (doc form_engine) h') \<noteq> ''agree''"
  proof (intro allI impI)
    fix h' assume a: "valid (doc form_engine) h' \<and> before h' (1, 1)"
    then have "h' \<in> {(0, 0), (0, 1), (1, 0), (1, 1)}" and "h' \<noteq> (1, 1)"
      by (auto simp: valid_form_engine before_def)
    then have "h' = (0, 0) \<or> h' = (0, 1) \<or> h' = (1, 0)"
      by auto
    then show "field_name (widget_at (doc form_engine) h') \<noteq> ''agree''"
      by (auto simp: form_engine_def widget_at_def)
  qed
  from update_form_field_no_validation [OF v n b, of "''banana''"] t s show ?thesis
    by blast
qed

text \<open>
  C5 as stated fails: the check box \<open>agree\<close> has the export values \<open>Yes\<close> and \<open>Off\<close> and the
  value \<open>Yes\<close>; setting it to \<open>banana\<close> raises nothing, and the value is \<open>Off\<close> afterwards.
\<close>

theorem checkbox_validation_counterexample:
  "field_type (widget_at (doc form_engine) (1, 1)) = PDF_WIDGET_TYPE_CHECKBOX \<and>
   button_states (widget_at (doc form_engine) (1, 1)) = [''Yes'', ''Off''] \<and>
   field_value (widget_at (doc form_engine) (1, 1)) = ''Yes'' \<and>
   fst (update_form_field check_box_update form_engine ''agree'' ''banana'') = Inr PyNone \<and>
   field_value
     (widget_at (doc (snd (update_form_field check_box_update form_engine ''agree'' ''banana'')))
        (1, 1)) = ''Off''"
proof -
  have v: "valid (doc form_engine) (1, 1)" by (simp add: valid_form_engine)
  have 1: "field_type (widget_at (doc form_engine) (1, 1)) = PDF_WIDGET_TYPE_CHECKBOX"
    and 2: "button_states (widget_at (doc form_engine) (1, 1)) = [''Yes'', ''Off'']"
    and 3: "field_value (widget_at (doc form_engine) (1, 1)) = ''Yes''"
    by (simp_all add: form_engine_def widget_at_def)
  have 4: "fst (update_form_field check_box_update form_engine ''agree'' ''banana'') = Inr PyNone"
    by (simp add: update_form_field_def update_loop_form_agree check_box_update_def Let_def)
  have 5: "field_value
     (widget_at (doc (snd (update_form_field check_box_update form_engine ''agree'' ''banana'')))
        (1, 1)) = ''Off''"
    by (subst widget_after_call [OF update_loop_form_agree v])
       (simp add: check_box_update_def Let_def)
  from 1 2 3 4 5 show ?thesis by blast
qed

text \<open>
  C6. When no widget of the document has the given name, \<open>update_form_field\<close> returns
  \<open>None\<close> and leaves the engine as it was: every page, every widget, every inserted text.
  No \<open>update()\<close> call is made, so this holds whatever the library's method does.
\<close>

theorem update_form_field_no_match:
  assumes "\<forall>w \<in> set (concat (map widgets (doc e))). field_name w \<noteq> name"
  shows "update_form_field upd e name v = (Inr PyNone, e)"
  by (rule update_form_field_no_call) (simp add: update_loop_find first_match_none [OF assms])

theorem update_form_field_no_match_witness:
  "\<forall>upd. update_form_field upd form_engine ''zzz'' ''x'' = (Inr PyNone, form_engine)"
proof
  fix upd :: update_method
  have "\<forall>w \<in> set (concat (map widgets (doc form_engine))). field_name w \<noteq> ''zzz''"
    by (simp add: form_engine_def)
  then show "update_form_field upd form_engine ''zzz'' ''x'' = (Inr PyNone, form_engine)"
    by (rule update_form_field_no_match)
qed

text \<open>
  C7. \<open>list_form_fields\<close> returns, in document order over all pages, one entry \<open>{name,
  value, type}\<close> for each widget with a non-empty field name and nothing else; for a
  document where no widget has a name (in particular one without widgets) it returns the
  empty list. The function has no failing branch.
\<close>

theorem list_form_fields_named:
  "list_form_fields e =
     map (\<lambda>w. \<lparr>entry_name = field_name w, entry_value = field_value w,
                 entry_type = field_type w\<rparr>)
         (filter (\<lambda>w. field_name w \<noteq> []) (concat (map widgets (doc e)))) \<and>
   ((\<forall>w \<in> set (concat (map widgets (doc e))). field_name w = []) \<longrightarrow>
      list_form_fields e = [])"
proof -
  have eq: "list_form_fields e =
     map (\<lambda>w. \<lparr>entry_name = field_name w, entry_value = field_value w,
                 entry_type = field_type w\<rparr>)
         (filter (\<lambda>w. field_name w \<noteq> []) (concat (map widgets (doc e))))"
    by (simp only: list_form_fields_eq map_widget_at_iter)
  have "filter (\<lambda>w. field_name w \<noteq> []) (concat (map widgets (doc e))) = []"
    if "\<forall>w \<in> set (concat (map widgets (doc e))). field_name w = []"
    using that by (simp only: filter_empty_conv) blast
  with eq show ?thesis by simp
qed

theorem list_form_fields_named_witness:
  "list_form_fields form_engine =
     [\<lparr>entry_name = ''a'', entry_value = ''1'', entry_type = 7\<rparr>,
      \<lparr>entry_name = ''a'', entry_value = ''2'', entry_type = 7\<rparr>,
      \<lparr>entry_name = ''agree'', entry_value = ''Yes'', entry_type = 2\<rparr>] \<and>
   concat (map widgets (doc blank_engine)) = [] \<and>
   list_form_fields blank_engine = []"
proof -
  have none: "\<forall>w \<in> set (concat (map widgets (doc blank_engine))). field_name w = []"
    by (simp add: blank_engine_def)
  from list_form_fields_named [of form_engine]
  have 1: "list_form_fields form_engine =
     [\<lparr>entry_name = ''a'', entry_value = ''1'', entry_type = 7\<rparr>,
      \<lparr>entry_name = ''a'', entry_value = ''2'', entry_type = 7\<rparr>,
      \<lparr>entry_name = ''agree'', entry_value = ''Yes'', entry_type = 2\<rparr>]"
    by (simp add: form_engine_def PDF_WIDGET_TYPE_CHECKBOX_def)
  from list_form_fields_named [of blank_engine] none
  have 2: "list_form_fields blank_engine = []" by blast
  have 3: "concat (map widgets (doc blank_engine)) = []"
    by (simp add: blank_engine_def)
  from 1 2 3 show ?thesis by blast
qed

text \<open>
  C9, as the code has it. \<open>update_form_field\<close> assigns to one widget at most and makes one
  \<open>update()\<close> call at most, on the first widget with the name. A widget that this call
  leaves alone is after \<open>update_form_field\<close> what it was before; the engine changes no
  widget by itself, and no widget is added or removed. Whether a later widget with the
  name keeps its value is decided by that call.
\<close>

theorem update_form_field_frame:
  assumes "valid (doc e) k"
    and "\<forall>h. valid (doc e) h \<and> field_name (widget_at (doc e) h) = name \<and>
              (\<forall>h'. valid (doc e) h' \<and> before h' h \<longrightarrow>
                     field_name (widget_at (doc e) h') \<noteq> name) \<longrightarrow>
              snd (upd (doc e) h ((widget_at (doc e) h)\<lparr>field_value := v\<rparr>)) k =
                widget_at (doc e) k"
  shows "widget_at (doc (snd (update_form_field upd e name v))) k = widget_at (doc e) k \<and>
         valid (doc (snd (update_form_field upd e name v))) = valid (doc e)"
proof (cases "update_loop (doc e) (iter_widgets (doc e)) name v")
  case None
  then show ?thesis by (simp add: update_form_field_no_call)
next
  case (Some c)
  obtain h w where c: "c = (h, w)" by (cases c)
  with Some have l: "update_loop (doc e) (iter_widgets (doc e)) name v = Some (h, w)"
    by simp
  note fm = first_match_props [OF update_loop_Some(1) [OF l]]
  from fm assms(2) update_loop_Some(2) [OF l]
  have "snd (upd (doc e) h w) k = widget_at (doc e) k"
    by blast
  with update_form_field_call [OF l, of upd] assms(1) show ?thesis
    by (simp add: widget_at_rewrite_widgets valid_rewrite_widgets fun_eq_iff)
qed

theorem update_form_field_frame_witness:
  "field_name (widget_at (doc form_engine) (1, 0)) = ''a'' \<and>
   widget_at (doc (snd (update_form_field text_field_update form_engine ''a'' ''x''))) (1, 0) =
     widget_at (doc form_engine) (1, 0) \<and>
   widget_at (doc (snd (update_form_field text_field_update form_engine ''a'' ''x''))) (1, 1) =
     widget_at (doc form_engine) (1, 1)"
proof -
  have v10: "valid (doc form_engine) (1, 0)" and v11: "valid (doc form_engine) (1, 1)"
    and n10: "field_name (widget_at (doc form_engine) (1, 0)) = ''a''"
    by (simp_all add: valid_form_engine) (simp add: form_engine_def widget_at_def)
  have first: "h = (0, 1)"
    if "valid (doc form_engine) h \<and> field_name (widget_at (doc form_engine) h) = ''a'' \<and>
        (\<forall>h'. valid (doc form_engine) h' \<and> before h' h \<longrightarrow>
               field_name (widget_at (doc form_engine) h') \<noteq> ''a'')" for h
  proof -
    from that have "update_loop (doc form_engine) (iter_widgets (doc form_engine)) ''a'' ''x'' =
        Some (h, (widget_at (doc form_engine) h)\<lparr>field_value := ''x''\<rparr>)"
      by (intro update_loop_first_match) blast+
    then show ?thesis by (simp add: update_loop_form_a)
  qed
  have alone: "\<forall>h. valid (doc form_engine) h \<and> field_name (widget_at (doc form_engine) h) = ''a'' \<and>
              (\<forall>h'. valid (doc form_engine) h' \<and> before h' h \<longrightarrow>
                     field_name (widget_at (doc form_engine) h') \<noteq> ''a'') \<longrightarrow>
              snd (text_field_update (doc form_engine) h
                     ((widget_at (doc form_engine) h)\<lparr>field_value := ''x''\<rparr>)) k =
                widget_at (doc form_engine) k"
    if "k \<noteq> (0, 1)" for k
  proof (intro allI impI)
    fix h
    assume "valid (doc form_engine) h \<and> field_name (widget_at (doc form_engine) h) = ''a'' \<and>
        (\<forall>h'. valid (doc form_engine) h' \<and> before h' h \<longrightarrow>
               field_name (widget_at (doc form_engine) h') \<noteq> ''a'')"
    then have "h = (0, 1)" by (rule first)
    with that show "snd (text_field_update (doc form_engine) h
                     ((widget_at (doc form_engine) h)\<lparr>field_value := ''x''\<rparr>)) k =
                widget_at (doc form_engine) k"
      by (simp add: text_field_update_def form_engine_def widget_at_def)
  qed
  have a10: "((1, 0) :: handle) \<noteq> (0, 1)" and a11: "((1, 1) :: handle) \<noteq> (0, 1)"
    by simp_all
  from update_form_field_frame
         [where upd = text_field_update and e = form_engine and name = "''a''" and v = "''x''"
            and k = "(1, 0)", OF v10 alone [OF a10]]
       update_form_field_frame
         [where upd = text_field_update and e = form_engine and name = "''a''" and v = "''x''"
            and k = "(1, 1)", OF v11 alone [OF a11]]
       n10
  show ?thesis by blast
qed

text \<open>
  C9 as stated fails: on the form whose field \<open>a\<close> has two widgets, the call is made on
  the first, and the second, a later widget with the name, has the new value too.
\<close>

theorem later_widget_counterexample:
  "update_loop (doc shared_engine) (iter_widgets (doc shared_engine)) ''a'' ''x'' =
     Some ((0, 0),
           \<lparr>field_name = ''a'', field_value = ''x'', field_type = 7, appearance = ''1'',
            hidden = False, button_states = []\<rparr>) \<and>
   field_name (widget_at (doc shared_engine) (0, 1)) = ''a'' \<and>
   field_value (widget_at (doc shared_engine) (0, 1)) = ''1'' \<and>
   field_value
     (widget_at (doc (snd (update_form_field shared_field_update shared_engine ''a'' ''x'')))
        (0, 1)) = ''x''"
proof -
  have v: "valid (doc shared_engine) (0, 1)" by (simp add: valid_shared_engine)
  have 2: "field_name (widget_at (doc shared_engine) (0, 1)) = ''a''"
    and 3: "field_value (widget_at (doc shared_engine) (0, 1)) = ''1''"
    by (simp_all add: shared_engine_def widget_at_def)
  have 4: "field_value
     (widget_at (doc (snd (update_form_field shared_field_update shared_engine ''a'' ''x'')))
        (0, 1)) = ''x''"
    by (subst widget_after_call [OF update_loop_shared_a v])
       (simp add: shared_field_update_def shared_engine_def widget_at_def)
  from update_loop_shared_a 2 3 4 show ?thesis by blast
qed

text \<open>
  C10. \<open>page_count\<close> is the same after \<open>update_form_field\<close>, whatever the arguments and
  whatever its \<open>update()\<close> call does, and after every \<open>insert_text\<close> that returns;
  \<open>insert_text\<close> on an existing page does return.
\<close>

theorem page_count_invariant:
  "page_count (snd (update_form_field upd e name v)) = page_count e \<and>
   (\<forall>e'. insert_text e n x y txt font_size = Some (Inr e') \<longrightarrow> page_count e' = page_count e) \<and>
   (0 \<le> n \<and> n < page_count e \<longrightarrow>
      (\<exists>e'. insert_text e n x y txt font_size = Some (Inr e') \<and> page_count e' = page_count e))"
proof -
  have 1: "page_count (snd (update_form_field upd e name v)) = page_count e"
    by (simp add: page_count_def length_doc_update_form_field)
  have 2: "page_count e' = page_count e"
    if "insert_text e n x y txt font_size = Some (Inr e')" for e'
    using that
    by (auto simp: insert_text_def page_count_def length_page_insert_text
             split: option.splits sum.splits)
  have 3: "\<exists>e'. insert_text e n x y txt font_size = Some (Inr e') \<and> page_count e' = page_count e"
    if "0 \<le> n \<and> n < page_count e"
    using that
    by (simp add: insert_text_def page_count_def load_page_in_range length_page_insert_text)
  from 1 2 3 show ?thesis by blast
qed

theorem page_count_invariant_witness:
  "(\<forall>upd. page_count (snd (update_form_field upd form_engine ''a'' ''x'')) = 2) \<and>
   (\<exists>e'. insert_text form_engine 1 100 200 ''Hello'' 12 = Some (Inr e') \<and> page_count e' = 2) \<and>
   (\<exists>e'. insert_text form_engine (- 1) 100 200 ''Hello'' 12 = Some (Inr e') \<and> page_count e' = 2)"
proof -
  have pc: "page_count form_engine = 2"
    by (simp add: page_count_def form_engine_def)
  have neg: "\<exists>e'. insert_text form_engine (- 1) 100 200 ''Hello'' 12 = Some (Inr e')"
    by (simp add: insert_text_def load_page_minus_one form_engine_def)
  have 1: "\<forall>upd. page_count (snd (update_form_field upd form_engine ''a'' ''x'')) = 2"
    using page_count_invariant [of _ form_engine "''a''" "''x''" 1 100 200 "''Hello''" 12] pc
    by simp
  from 1 page_count_invariant [of text_field_update form_engine "''a''" "''x''" 1 100 200 "''Hello''" 12]
       page_count_invariant [of text_field_update form_engine "''a''" "''x''" "- 1" 100 200 "''Hello''" 12]
       pc neg
  show ?thesis by auto
qed

end
